theory Spec2Isabelle
  imports Main "HOL-Library.Word"
begin

section \<open>Button widget options (package button)\<close>

text \<open>
  A shallow embedding of the two option files of the button widget: the widget options
  (\<^verbatim>\<open>options\<close>, \<^verbatim>\<open>newOptions\<close>, \<^verbatim>\<open>validate\<close> and the six public constructors) and
  the write options (\<^verbatim>\<open>writeOptions\<close>, \<^verbatim>\<open>setDefaultFgColor\<close>, \<^verbatim>\<open>newWriteOptions\<close>,
  \<^verbatim>\<open>WriteCellOpts\<close>).

  Go's \<^verbatim>\<open>int\<close> is a 64-bit two's complement integer on the usual platforms: it is a
  \<open>64 word\<close>, \<open>+\<close> wraps, and the signed comparisons of the source are comparisons of
  \<open>sint\<close>. A pointer to a struct that a function mutates is a record passed in and
  returned updated. A Go closure over one argument is a HOL function.
\<close>

subsection \<open>Types of the cell and keyboard packages\<close>

type_synonym go_int = "64 word"

text \<open>\<^verbatim>\<open>cell.Color\<close> is an integer type (the source converts with \<^verbatim>\<open>cell.Color(250)\<close>).\<close>

type_synonym Color = "64 word"

text \<open>\<^verbatim>\<open>keyboard.Key\<close> is a rune, a 32-bit integer; the zero value of a field of that type is 0.\<close>

type_synonym Key = "32 word"

text \<open>
  The named constants of package cell that the source uses. Their declarations are not
  among the sources, so their values are parameters of the model.
\<close>

record cell_pkg =
  ColorBlack :: Color
  ColorCyan :: Color

text \<open>The named constant of package keyboard that the source uses, a parameter as well.\<close>

record keyboard_pkg =
  KeyEnter :: Key

text \<open>
  Modelled from the spec: the type \<^verbatim>\<open>cell.Option\<close> and the constructor \<^verbatim>\<open>cell.FgColor\<close> are
  declared in package cell, which is not among the sources. Section 6 of the specification
  describes a per-cell styling directive as an atomic unit of which this code constructs
  the "set foreground color" one; a background directive stands for the unrelated ones
  (section 4.2, "background-only").
\<close>

datatype cell_Option = FgColor Color | BgColor Color

text \<open>Whether a directive sets the foreground color, and whether a list holds such a directive.\<close>

fun isFgColor :: "cell_Option \<Rightarrow> bool" where
  "isFgColor (FgColor c) = True"
| "isFgColor (BgColor c) = False"

definition hasFgColor :: "cell_Option list \<Rightarrow> bool" where
  "hasFgColor xs = list_ex isFgColor xs"

subsection \<open>Widget options\<close>

record options =
  fillColor :: Color
  textColor :: Color
  shadowColor :: Color
  height :: go_int
  width :: go_int
  key :: Key

text \<open>\<^verbatim>\<open>type option func(*options)\<close>: a function that updates the record it is given.\<close>

type_synonym Option = "options \<Rightarrow> options"

definition option_set :: "Option \<Rightarrow> options \<Rightarrow> options" where
  "option_set f opts = f opts"

text \<open>The \<^verbatim>\<open>%d\<close> verb of \<^verbatim>\<open>fmt\<close> on an \<^verbatim>\<open>int\<close>: decimal digits, with a minus sign when negative.\<close>

definition digit :: "nat \<Rightarrow> char" where
  "digit d = ''0123456789'' ! d"

fun decimal :: "nat \<Rightarrow> string" where
  "decimal n = (if n < 10 then [digit n] else decimal (n div 10) @ [digit (n mod 10)])"

definition fmt_d :: "go_int \<Rightarrow> string" where
  "fmt_d i = (if sint i < 0 then ''-'' @ decimal (nat (- sint i)) else decimal (nat (sint i)))"

text \<open>An error built by \<^verbatim>\<open>fmt.Errorf\<close> carries its formatted message.\<close>

datatype error = Errorf string

text \<open>\<^verbatim>\<open>validate\<close>: \<open>None\<close> is Go's \<^verbatim>\<open>nil\<close> error.\<close>

definition validate :: "options \<Rightarrow> error option" where
  "validate opts =
     (let minimum = 1 in
      if sint (height opts) < sint minimum then
        Some (Errorf (''invalid height '' @ fmt_d (height opts) @ '', must be ''
                        @ fmt_d minimum @ '' <= height''))
      else
        let minimum = 1 in
        if sint (width opts) < sint minimum then
          Some (Errorf (''invalid width '' @ fmt_d (width opts) @ '', must be ''
                          @ fmt_d minimum @ '' <= width''))
        else None)"

definition DefaultFillColor :: "cell_pkg \<Rightarrow> Color" where
  "DefaultFillColor cell = ColorCyan cell"

definition DefaultTextColor :: "cell_pkg \<Rightarrow> Color" where
  "DefaultTextColor cell = ColorBlack cell"

definition DefaultShadowColor :: Color where
  "DefaultShadowColor = 250"

definition DefaultHeight :: go_int where
  "DefaultHeight = 2"

definition DefaultKey :: "keyboard_pkg \<Rightarrow> Key" where
  "DefaultKey kb = KeyEnter kb"

text \<open>
  \<^verbatim>\<open>newOptions\<close>: the struct literal names five fields. The field \<^verbatim>\<open>key\<close> is not among
  them, so it holds the zero value of its type.
\<close>

definition newOptions :: "cell_pkg \<Rightarrow> go_int \<Rightarrow> options" where
  "newOptions cell textWidth =
     \<lparr> fillColor = DefaultFillColor cell,
       textColor = DefaultTextColor cell,
       shadowColor = DefaultShadowColor,
       height = DefaultHeight,
       width = textWidth + 2,
       key = 0 \<rparr>"

definition FillColor :: "Color \<Rightarrow> Option" where
  "FillColor c = (\<lambda>opts. opts\<lparr>fillColor := c\<rparr>)"

definition TextColor :: "Color \<Rightarrow> Option" where
  "TextColor c = (\<lambda>opts. opts\<lparr>textColor := c\<rparr>)"

definition ShadowColor :: "Color \<Rightarrow> Option" where
  "ShadowColor c = (\<lambda>opts. opts\<lparr>shadowColor := c\<rparr>)"

definition Height :: "go_int \<Rightarrow> Option" where
  "Height cells = (\<lambda>opts. opts\<lparr>height := cells\<rparr>)"

definition Width :: "go_int \<Rightarrow> Option" where
  "Width cells = (\<lambda>opts. opts\<lparr>width := cells\<rparr>)"

definition Key :: "Key \<Rightarrow> Option" where
  "Key k = (\<lambda>opts. opts\<lparr>key := k\<rparr>)"

text \<open>
  Modelled from the spec: the widget constructor that uses these options (\<^verbatim>\<open>New\<close> of the
  button widget) is not among the sources. Section 4.1 of the specification gives its three
  steps: construct the default record from the label width, apply each option in the order
  given, then validate once and return the record or the error.
\<close>

definition applyOptions :: "Option list \<Rightarrow> options \<Rightarrow> options" where
  "applyOptions opts opt = foldl (\<lambda>r f. option_set f r) opt opts"

definition buildOptions :: "cell_pkg \<Rightarrow> go_int \<Rightarrow> Option list \<Rightarrow> error + options" where
  "buildOptions cell textWidth opts =
     (let opt = applyOptions opts (newOptions cell textWidth) in
      case validate opt of
        Some err \<Rightarrow> Inl err
      | None \<Rightarrow> Inr opt)"

subsection \<open>Write options\<close>

record writeOptions =
  cellOpts :: "cell_Option list"

text \<open>\<^verbatim>\<open>append([]cell.Option{cell.FgColor(c)}, wo.cellOpts...)\<close>\<close>

definition setDefaultFgColor :: "Color \<Rightarrow> writeOptions \<Rightarrow> writeOptions" where
  "setDefaultFgColor c wo = wo\<lparr>cellOpts := [FgColor c] @ cellOpts wo\<rparr>"

type_synonym WriteOption = "writeOptions \<Rightarrow> writeOptions"

definition writeOption_set :: "WriteOption \<Rightarrow> writeOptions \<Rightarrow> writeOptions" where
  "writeOption_set f wOpts = f wOpts"

text \<open>\<^verbatim>\<open>newWriteOptions\<close>: the loop over the options is a left fold from the empty record.\<close>

definition newWriteOptions :: "WriteOption list \<Rightarrow> writeOptions" where
  "newWriteOptions wOpts = foldl (\<lambda>wo f. writeOption_set f wo) \<lparr>cellOpts = []\<rparr> wOpts"

text \<open>
  \<^verbatim>\<open>WriteCellOpts\<close>, on the values: the list that the field holds after the assignment.
  The assignment stores the slice it is given, not a copy; which array the stored slice
  reads is the subject of the next subsection.
\<close>

definition WriteCellOpts :: "cell_Option list \<Rightarrow> WriteOption" where
  "WriteCellOpts opts = (\<lambda>wOpts. wOpts\<lparr>cellOpts := opts\<rparr>)"

subsection \<open>Write options over slices and their backing arrays\<close>

text \<open>
  A Go slice is a header: the backing array, the position in it of the first element, a
  length and a capacity. The store holds the backing arrays, an address being an index
  into it. The elements of a slice are read from the store, and an assignment
  \<^verbatim>\<open>s[i] = v\<close> writes the backing array (it panics when \<^verbatim>\<open>i\<close> is not below the length:
  \<open>None\<close>). The \<^verbatim>\<open>nil\<close> slice has length and capacity 0.
\<close>

type_synonym addr = nat

record slice =
  arr :: addr
  first :: nat
  Len :: nat
  Cap :: nat

type_synonym store = "cell_Option list list"

definition nil_slice :: slice where
  "nil_slice = \<lparr>arr = 0, first = 0, Len = 0, Cap = 0\<rparr>"


definition slice_elems :: "store \<Rightarrow> slice \<Rightarrow> cell_Option list" where
  "slice_elems st s = take (Len s) (drop (first s) (st ! arr s))"


text \<open>
  The write options again, with the field \<^verbatim>\<open>cellOpts\<close> as the slice header that the struct
  holds. \<^verbatim>\<open>WriteCellOpts(opts...)\<close> called on a slice passes that slice itself, and
  \<^verbatim>\<open>wOpts.cellOpts = opts\<close> stores its header: no array is allocated and none is written.
\<close>

record writeOptions_ref =
  cellOpts_ref :: slice

type_synonym WriteOption_ref = "writeOptions_ref \<Rightarrow> writeOptions_ref"

definition writeOption_set_ref :: "WriteOption_ref \<Rightarrow> writeOptions_ref \<Rightarrow> writeOptions_ref" where
  "writeOption_set_ref f wOpts = f wOpts"

definition newWriteOptions_ref :: "WriteOption_ref list \<Rightarrow> writeOptions_ref" where
  "newWriteOptions_ref wOpts =
     foldl (\<lambda>wo f. writeOption_set_ref f wo) \<lparr>cellOpts_ref = nil_slice\<rparr> wOpts"

definition WriteCellOpts_ref :: "slice \<Rightarrow> WriteOption_ref" where
  "WriteCellOpts_ref opts = (\<lambda>wOpts. wOpts\<lparr>cellOpts_ref := opts\<rparr>)"

section \<open>Properties\<close>

subsection \<open>Helper facts\<close>

lemma setDefaultFgColor_cellOpts:
  "cellOpts (setDefaultFgColor c wo) = FgColor c # cellOpts wo"
  by (simp add: setDefaultFgColor_def)

lemma fmt_d_1: "fmt_d 1 = ''1''"
  by (simp add: fmt_d_def digit_def)

lemma fmt_d_0: "fmt_d 0 = ''0''"
  by (simp add: fmt_d_def digit_def)

lemma validate_height:
  "sint (height opts) < 1 \<Longrightarrow>
   validate opts =
     Some (Errorf (''invalid height '' @ fmt_d (height opts) @ '', must be 1 <= height''))"
  by (simp add: validate_def fmt_d_1)

lemma validate_width:
  "\<not> sint (height opts) < 1 \<Longrightarrow> sint (width opts) < 1 \<Longrightarrow>
   validate opts =
     Some (Errorf (''invalid width '' @ fmt_d (width opts) @ '', must be 1 <= width''))"
  by (simp add: validate_def fmt_d_1)

lemma validate_ok:
  "\<not> sint (height opts) < 1 \<Longrightarrow> \<not> sint (width opts) < 1 \<Longrightarrow> validate opts = None"
  by (simp add: validate_def)

lemma newOptions_width_sint:
  "0 \<le> sint L \<Longrightarrow> sint L < 2 ^ 63 - 2 \<Longrightarrow> sint (width (newOptions cell L)) = sint L + 2"
proof -
  assume lo: "0 \<le> sint L" and hi: "sint L < 2 ^ 63 - 2"
  have "sint (L + 2) = signed_take_bit 63 (sint L + 2)"
    by (simp add: sint_word_ariths)
  also have "\<dots> = sint L + 2"
    using lo hi by (simp add: signed_take_bit_int_eq_self)
  finally show ?thesis
    by (simp add: newOptions_def)
qed

lemma buildOptions_cases:
  "buildOptions cell L opts =
     (let opt = applyOptions opts (newOptions cell L) in
      if sint (height opt) < 1 then
        Inl (Errorf (''invalid height '' @ fmt_d (height opt) @ '', must be 1 <= height''))
      else if sint (width opt) < 1 then
        Inl (Errorf (''invalid width '' @ fmt_d (width opt) @ '', must be 1 <= width''))
      else Inr opt)"
  by (simp add: buildOptions_def Let_def validate_height validate_width validate_ok)

lemma applyOptions_Height:
  "applyOptions [Height h] (newOptions cell L) = (newOptions cell L)\<lparr>height := h\<rparr>"
  by (simp add: applyOptions_def option_set_def Height_def)

lemma no_fg_filter_empty:
  "\<not> hasFgColor xs \<Longrightarrow> filter isFgColor xs = []"
  by (induction xs) (auto simp: hasFgColor_def)


text \<open>
  The two models of the write options agree: read at one store, the slice that the options
  leave in the record holds the list that the model on values computes.
\<close>

lemma newWriteOptions_ref_value:
  "slice_elems st (cellOpts_ref (newWriteOptions_ref (map WriteCellOpts_ref ss)))
     = cellOpts (newWriteOptions (map (\<lambda>s. WriteCellOpts (slice_elems st s)) ss))"
proof (induction ss rule: rev_induct)
  case Nil
  show ?case
    by (simp add: newWriteOptions_ref_def newWriteOptions_def slice_elems_def nil_slice_def)
next
  case (snoc s ss)
  show ?case
    by (simp add: newWriteOptions_ref_def newWriteOptions_def writeOption_set_ref_def
        writeOption_set_def WriteCellOpts_ref_def WriteCellOpts_def)
qed

subsection \<open>Default width\<close>

text \<open>
  Claim C4. For every label length \<open>L\<close>, the default record that \<^verbatim>\<open>newOptions\<close> returns,
  before any option is applied, has width \<open>L + 2\<close>. The sum is Go's addition on \<^verbatim>\<open>int\<close>;
  for every label length from 0 up to the largest \<^verbatim>\<open>int\<close> minus 2 it is also the sum of
  the integers (lemma \<open>newOptions_width_sint\<close>).
\<close>

theorem newOptions_width:
  "width (newOptions cell L) = L + 2"
  by (simp add: newOptions_def)

subsection \<open>The default foreground color\<close>

text \<open>
  Claim C9. For every write-options record with styling list \<open>xs\<close> and every color \<open>c\<close>,
  \<^verbatim>\<open>setDefaultFgColor\<close> yields the list \<open>FgColor c\<close> followed by \<open>xs\<close>: the length grows by
  exactly one, and the entries of \<open>xs\<close> follow in their order, whatever \<open>xs\<close> holds.
\<close>

theorem setDefaultFgColor_prepends:
  "cellOpts (setDefaultFgColor c wo) = FgColor c # cellOpts wo
   \<and> length (cellOpts (setDefaultFgColor c wo)) = length (cellOpts wo) + 1
   \<and> tl (cellOpts (setDefaultFgColor c wo)) = cellOpts wo"
  by (simp add: setDefaultFgColor_cellOpts)

text \<open>
  Claim C1, as the code has it. The claim says that \<^verbatim>\<open>setDefaultFgColor\<close> leaves the list
  unchanged when it already holds a foreground-color directive. The code has no such scan:
  with the list \<open>[FgColor 1]\<close> and the color 2 the result is \<open>[FgColor 2, FgColor 1]\<close>.
\<close>

theorem setDefaultFgColor_unchanged_counterexample:
  "hasFgColor (cellOpts \<lparr>cellOpts = [FgColor 1]\<rparr>)
   \<and> cellOpts (setDefaultFgColor 2 \<lparr>cellOpts = [FgColor 1]\<rparr>)
       \<noteq> cellOpts \<lparr>cellOpts = [FgColor 1]\<rparr>
   \<and> cellOpts (setDefaultFgColor 2 \<lparr>cellOpts = [FgColor 1]\<rparr>) = [FgColor 2, FgColor 1]"
  by (simp add: hasFgColor_def setDefaultFgColor_def)

text \<open>
  Claim C1, amended. For every write-options record and color \<open>c\<close>, \<^verbatim>\<open>setDefaultFgColor\<close>
  inserts the directive \<open>FgColor c\<close> at the front of the styling list: when no directive of
  the list sets a foreground color the result then holds exactly one such directive, and
  when the list already holds one the directive is inserted all the same, the old entries
  staying behind it. In no case is an entry removed, and at most one is added.
\<close>

theorem setDefaultFgColor_always_inserts:
  "(\<not> hasFgColor (cellOpts wo) \<longrightarrow>
      cellOpts (setDefaultFgColor c wo) = FgColor c # cellOpts wo
      \<and> length (filter isFgColor (cellOpts (setDefaultFgColor c wo))) = 1)
   \<and> (hasFgColor (cellOpts wo) \<longrightarrow>
      cellOpts (setDefaultFgColor c wo) = FgColor c # cellOpts wo)
   \<and> length (cellOpts wo) \<le> length (cellOpts (setDefaultFgColor c wo))
   \<and> length (cellOpts (setDefaultFgColor c wo)) \<le> length (cellOpts wo) + 1"
  by (simp add: setDefaultFgColor_cellOpts no_fg_filter_empty)

theorem setDefaultFgColor_always_inserts_witness:
  "\<not> hasFgColor (cellOpts \<lparr>cellOpts = [BgColor 3]\<rparr>)
   \<and> cellOpts (setDefaultFgColor 2 \<lparr>cellOpts = [BgColor 3]\<rparr>) = [FgColor 2, BgColor 3]
   \<and> hasFgColor (cellOpts \<lparr>cellOpts = [BgColor 3, FgColor 1]\<rparr>)
   \<and> cellOpts (setDefaultFgColor 2 \<lparr>cellOpts = [BgColor 3, FgColor 1]\<rparr>)
       = [FgColor 2, BgColor 3, FgColor 1]"
  using setDefaultFgColor_always_inserts [of "\<lparr>cellOpts = [BgColor 3]\<rparr>" 2]
        setDefaultFgColor_always_inserts [of "\<lparr>cellOpts = [BgColor 3, FgColor 1]\<rparr>" 2]
  by (simp add: hasFgColor_def)

subsection \<open>The default record\<close>

text \<open>
  Claim C2, evaluated on the code. For label length 4 and no option, the record has width 6,
  height 2, fill color cyan, text color black and shadow color 250, but its key is 0, the
  zero value of the key type: \<^verbatim>\<open>newOptions\<close> does not assign \<^verbatim>\<open>DefaultKey\<close>. The key equals
  the default key only if the Enter key were the key 0.
\<close>

theorem newOptions_key_zero:
  "newOptions cell 4 =
     \<lparr> fillColor = ColorCyan cell, textColor = ColorBlack cell, shadowColor = 250,
       height = 2, width = 6, key = 0 \<rparr>
   \<and> applyOptions [] (newOptions cell 4) = newOptions cell 4
   \<and> buildOptions cell 4 [] = Inr (newOptions cell 4)
   \<and> (key (newOptions cell 4) = DefaultKey kb) = (KeyEnter kb = 0)"
  by (auto simp add: newOptions_def applyOptions_def buildOptions_def validate_def
      DefaultFillColor_def DefaultTextColor_def DefaultShadowColor_def DefaultHeight_def
      DefaultKey_def)

subsection \<open>Options of one field\<close>

text \<open>
  Claim C5. For every record and every two options built by the constructor of one field,
  with values \<open>a\<close> then \<open>b\<close>, applying them in sequence gives the record that applying the
  second alone gives, and the field holds \<open>b\<close>. This holds for each of the six fields;
  \<open>Height 3\<close> then \<open>Height 5\<close> leaves height 5.
\<close>

theorem option_last_write_wins:
  "option_set (FillColor b) (option_set (FillColor a) r) = option_set (FillColor b) r
   \<and> option_set (TextColor b) (option_set (TextColor a) r) = option_set (TextColor b) r
   \<and> option_set (ShadowColor b) (option_set (ShadowColor a) r) = option_set (ShadowColor b) r
   \<and> option_set (Height h2) (option_set (Height h1) r) = option_set (Height h2) r
   \<and> option_set (Width w2) (option_set (Width w1) r) = option_set (Width w2) r
   \<and> option_set (Key k2) (option_set (Key k1) r) = option_set (Key k2) r
   \<and> fillColor (option_set (FillColor b) (option_set (FillColor a) r)) = b
   \<and> textColor (option_set (TextColor b) (option_set (TextColor a) r)) = b
   \<and> shadowColor (option_set (ShadowColor b) (option_set (ShadowColor a) r)) = b
   \<and> height (option_set (Height h2) (option_set (Height h1) r)) = h2
   \<and> width (option_set (Width w2) (option_set (Width w1) r)) = w2
   \<and> key (option_set (Key k2) (option_set (Key k1) r)) = k2
   \<and> height (option_set (Height 5) (option_set (Height 3) r)) = 5"
  by (simp add: option_set_def FillColor_def TextColor_def ShadowColor_def Height_def
      Width_def Key_def)




subsection \<open>Write options replace the styling list\<close>

text \<open>
  Claim C6. For every two lists \<open>A\<close> and \<open>B\<close> of cell options, \<^verbatim>\<open>newWriteOptions\<close> applied to
  \<open>WriteCellOpts A\<close> then \<open>WriteCellOpts B\<close> has the styling list \<open>B\<close>; whenever \<open>A\<close> is not
  empty this is not \<open>A\<close> followed by \<open>B\<close>.
\<close>

theorem WriteCellOpts_replaces:
  "cellOpts (newWriteOptions [WriteCellOpts A, WriteCellOpts B]) = B
   \<and> (A \<noteq> [] \<longrightarrow> cellOpts (newWriteOptions [WriteCellOpts A, WriteCellOpts B]) \<noteq> A @ B)"
  by (simp add: newWriteOptions_def writeOption_set_def WriteCellOpts_def)

theorem WriteCellOpts_replaces_witness:
  "[FgColor 1] \<noteq> []
   \<and> cellOpts (newWriteOptions [WriteCellOpts [FgColor 1], WriteCellOpts [BgColor 2]])
       = [BgColor 2]
   \<and> cellOpts (newWriteOptions [WriteCellOpts [FgColor 1], WriteCellOpts [BgColor 2]])
       \<noteq> [FgColor 1] @ [BgColor 2]"
  using WriteCellOpts_replaces [of "[FgColor 1]" "[BgColor 2]"]
  by simp

subsection \<open>Validation\<close>

text \<open>
  Claim C10. When the record has both a height below 1 and a width below 1, \<^verbatim>\<open>validate\<close>
  returns the error of the height, with the height in its message, and not the error of
  the width: the height is checked first and the first failing check returns.
\<close>

theorem validate_height_first:
  "sint (height opts) < 1 \<Longrightarrow> sint (width opts) < 1 \<Longrightarrow>
   validate opts =
     Some (Errorf (''invalid height '' @ fmt_d (height opts) @ '', must be 1 <= height''))
   \<and> validate opts \<noteq>
     Some (Errorf (''invalid width '' @ fmt_d (width opts) @ '', must be 1 <= width''))"
  by (simp add: validate_height)

theorem validate_height_first_witness:
  "sint (height \<lparr>fillColor = 0, textColor = 0, shadowColor = 0,
                  height = 0, width = -3, key = 0\<rparr>) < 1
   \<and> sint (width \<lparr>fillColor = 0, textColor = 0, shadowColor = 0,
                    height = 0, width = -3, key = 0\<rparr>) < 1
   \<and> validate \<lparr>fillColor = 0, textColor = 0, shadowColor = 0,
                height = 0, width = -3, key = 0\<rparr>
       = Some (Errorf ''invalid height 0, must be 1 <= height'')"
  using validate_height_first
    [of "\<lparr>fillColor = 0, textColor = 0, shadowColor = 0, height = 0, width = -3, key = 0\<rparr>"]
  by (simp add: fmt_d_0)

text \<open>
  Claim C3. For every option list and label length, construction returns an error exactly
  when the record after the options are applied has a height below 1 or a width below 1.
  The error of the height carries the height and the minimum 1 in its message, the error
  of the width (reached when the height is valid) carries the width and the minimum 1; for
  \<open>Height 0\<close> the message is "invalid height 0, must be 1 <= height". In every other case
  construction returns the record as the options left it, nothing clamped. With a single
  option \<open>Height h\<close> and a valid default width, construction succeeds with height \<open>h\<close>
  when \<open>h\<close> is at least 1 and fails with the error of the height when \<open>h\<close> is below 1.
\<close>

theorem buildOptions_validation:
  "(let opt = applyOptions opts (newOptions cell L) in
     (isl (buildOptions cell L opts) \<longleftrightarrow> sint (height opt) < 1 \<or> sint (width opt) < 1)
     \<and> (sint (height opt) < 1 \<longrightarrow>
          buildOptions cell L opts =
            Inl (Errorf (''invalid height '' @ fmt_d (height opt) @ '', must be 1 <= height'')))
     \<and> (\<not> sint (height opt) < 1 \<and> sint (width opt) < 1 \<longrightarrow>
          buildOptions cell L opts =
            Inl (Errorf (''invalid width '' @ fmt_d (width opt) @ '', must be 1 <= width'')))
     \<and> (1 \<le> sint (height opt) \<and> 1 \<le> sint (width opt) \<longrightarrow>
          buildOptions cell L opts = Inr opt))
   \<and> buildOptions cell L [Height 0]
       = Inl (Errorf (''invalid '' @ ''height 0, must be 1 <= height''))
   \<and> (1 \<le> sint h \<and> 1 \<le> sint (L + 2) \<longrightarrow>
        buildOptions cell L [Height h] = Inr ((newOptions cell L)\<lparr>height := h\<rparr>)
        \<and> height ((newOptions cell L)\<lparr>height := h\<rparr>) = h)
   \<and> (sint h < 1 \<longrightarrow>
        buildOptions cell L [Height h] =
          Inl (Errorf (''invalid height '' @ fmt_d h @ '', must be 1 <= height'')))"
proof -
  have a: "let opt = applyOptions opts (newOptions cell L) in
     (isl (buildOptions cell L opts) \<longleftrightarrow> sint (height opt) < 1 \<or> sint (width opt) < 1)
     \<and> (sint (height opt) < 1 \<longrightarrow>
          buildOptions cell L opts =
            Inl (Errorf (''invalid height '' @ fmt_d (height opt) @ '', must be 1 <= height'')))
     \<and> (\<not> sint (height opt) < 1 \<and> sint (width opt) < 1 \<longrightarrow>
          buildOptions cell L opts =
            Inl (Errorf (''invalid width '' @ fmt_d (width opt) @ '', must be 1 <= width'')))
     \<and> (1 \<le> sint (height opt) \<and> 1 \<le> sint (width opt) \<longrightarrow>
          buildOptions cell L opts = Inr opt)"
    by (simp add: buildOptions_cases Let_def)
  have b: "buildOptions cell L [Height 0] =
      Inl (Errorf (''invalid '' @ ''height 0, must be 1 <= height''))"
    by (simp add: buildOptions_cases applyOptions_Height fmt_d_0)
  have c: "1 \<le> sint h \<and> 1 \<le> sint (L + 2) \<longrightarrow>
        buildOptions cell L [Height h] = Inr ((newOptions cell L)\<lparr>height := h\<rparr>)
        \<and> height ((newOptions cell L)\<lparr>height := h\<rparr>) = h"
    by (simp add: buildOptions_cases applyOptions_Height Let_def) (simp add: newOptions_def)
  have d: "sint h < 1 \<longrightarrow>
        buildOptions cell L [Height h] =
          Inl (Errorf (''invalid height '' @ fmt_d h @ '', must be 1 <= height''))"
    by (simp add: buildOptions_cases applyOptions_Height)
  from a b c d show ?thesis by blast
qed

theorem buildOptions_validation_witness:
  "buildOptions \<lparr>ColorBlack = 1, ColorCyan = 7\<rparr> 4 [Height 0, Width 0]
     = Inl (Errorf ''invalid height 0, must be 1 <= height'')
   \<and> buildOptions \<lparr>ColorBlack = 1, ColorCyan = 7\<rparr> 4 [Width (-1)]
     = Inl (Errorf ''invalid width -1, must be 1 <= width'')
   \<and> buildOptions \<lparr>ColorBlack = 1, ColorCyan = 7\<rparr> 4 [Height 3]
     = Inr \<lparr>fillColor = 7, textColor = 1, shadowColor = 250, height = 3, width = 6, key = 0\<rparr>
   \<and> buildOptions \<lparr>ColorBlack = 1, ColorCyan = 7\<rparr> 4 [Height (-2)]
     = Inl (Errorf ''invalid height -2, must be 1 <= height'')"
  using buildOptions_validation [of "[Height 0, Width 0]" "\<lparr>ColorBlack = 1, ColorCyan = 7\<rparr>" 4 3]
        buildOptions_validation [of "[Width (-1)]" "\<lparr>ColorBlack = 1, ColorCyan = 7\<rparr>" 4 "-2"]
  by (simp add: applyOptions_def option_set_def Height_def Width_def newOptions_def
      DefaultFillColor_def DefaultTextColor_def DefaultShadowColor_def DefaultHeight_def
      fmt_d_def digit_def)

text \<open>
  Claim C7. Validation sees the record only after the whole option list is applied: for
  every option list, split anywhere into a prefix and the rest, whose final record has a
  height and a width of at least 1, construction succeeds with that record, whatever state
  the prefix alone leaves. \<open>Height 0\<close> followed by \<open>Height 2\<close> succeeds, although the
  record after \<open>Height 0\<close> does not validate.
\<close>

theorem buildOptions_validates_final_record:
  "1 \<le> sint (height (applyOptions (pre @ post) (newOptions cell L))) \<Longrightarrow>
   1 \<le> sint (width (applyOptions (pre @ post) (newOptions cell L))) \<Longrightarrow>
   buildOptions cell L (pre @ post) = Inr (applyOptions (pre @ post) (newOptions cell L))"
  by (simp add: buildOptions_cases Let_def)

theorem buildOptions_validates_final_record_witness:
  "validate (applyOptions [Height 0] (newOptions \<lparr>ColorBlack = 1, ColorCyan = 7\<rparr> 4)) \<noteq> None
   \<and> buildOptions \<lparr>ColorBlack = 1, ColorCyan = 7\<rparr> 4 ([Height 0] @ [Height 2])
     = Inr \<lparr>fillColor = 7, textColor = 1, shadowColor = 250, height = 2, width = 6, key = 0\<rparr>"
  using buildOptions_validates_final_record
    [of "[Height 0]" "[Height 2]" "\<lparr>ColorBlack = 1, ColorCyan = 7\<rparr>" 4]
  by (simp add: applyOptions_def option_set_def Height_def newOptions_def validate_def
      DefaultFillColor_def DefaultTextColor_def DefaultShadowColor_def DefaultHeight_def)

end
